theory Spec2Isabelle
  imports Main
begin

section \<open>Values and objects\<close>

text \<open>
  The schema builder receives and returns plain JavaScript values. A value is modelled
  as a tree; an object is the list of its own properties in creation order (the order
  of an object literal), with one entry for each key.
\<close>

datatype json =
    JNull
  | JBool bool
  | JNum int
  | JStr string
  | JArr "json list"
  | JObj "(string \<times> json) list"

type_synonym obj = "(string \<times> json) list"

subsection \<open>Property enumeration: \<^verbatim>\<open>Object.keys\<close>\<close>

text \<open>
  \<^verbatim>\<open>Object.keys(o)\<close> lists the own enumerable string keys of \<open>o\<close> in the order of
  the language's own-property-keys operation: first every key that is an array index
  (the canonical decimal numeral of an integer from 0 up to 2^32 - 2), in ascending
  numeric order, then all other keys in creation order.
\<close>

definition is_digit :: "char \<Rightarrow> bool" where
  "is_digit c = (48 \<le> (of_char c :: nat) \<and> (of_char c :: nat) \<le> 57)"

definition digit_value :: "char \<Rightarrow> nat" where
  "digit_value c = of_char c - 48"

definition numeral_value :: "string \<Rightarrow> nat" where
  "numeral_value s = foldl (\<lambda>n c. 10 * n + digit_value c) 0 s"

definition is_array_index :: "string \<Rightarrow> bool" where
  "is_array_index s =
     (s \<noteq> [] \<and> list_all is_digit s \<and> (s = ''0'' \<or> hd s \<noteq> CHR ''0'')
      \<and> numeral_value s < 4294967295)"

definition index_keys :: "string list \<Rightarrow> string list" where
  "index_keys ks = sort_key numeral_value (filter is_array_index ks)"

definition name_keys :: "string list \<Rightarrow> string list" where
  "name_keys ks = filter (\<lambda>k. \<not> is_array_index k) ks"

definition Object_keys :: "obj \<Rightarrow> string list" where
  "Object_keys ob = index_keys (map fst ob) @ name_keys (map fst ob)"

subsection \<open>Writing a property\<close>

text \<open>
  Assigning to a key that the object already has replaces the value and keeps the
  key's position; a new key is added at the end.
\<close>

fun obj_put :: "obj \<Rightarrow> string \<Rightarrow> json \<Rightarrow> obj" where
  "obj_put [] k v = [(k, v)]"
| "obj_put ((k', v') # ps) k v =
     (if k' = k then (k, v) # ps else (k', v') # obj_put ps k v)"

section \<open>The schema builder\<close>

text \<open>
  Every schema the builder returns is an object literal with the same four fields.
\<close>

record object_schema =
  type :: string
  properties :: obj
  additionalProperties :: bool
  required :: "string list"

text \<open>
  Modelled from the spec: \<^verbatim>\<open>createEventSchemas\<close> is imported from the module
  \<^verbatim>\<open>./utils\<close>, which is not among the sources. The specification describes it as
  the event schema normalizer: each named event descriptor becomes an object schema with
  \<^verbatim>\<open>additionalProperties: false\<close>, a \<^verbatim>\<open>type\<close> property fixed to a constant
  equal to the event name, all declared payload properties merged in, and \<^verbatim>\<open>type\<close>
  required. The specification does not say which value stands under \<^verbatim>\<open>type\<close> when a
  payload declares a property of that name itself; since it calls the discriminant
  reserved and fixes it to the event name for every event, the discriminant is written
  last here and stands whatever the payload declares under that key.
\<close>

definition payload_properties :: "json \<Rightarrow> obj" where
  "payload_properties d =
     (case d of
        JObj fs \<Rightarrow> (case map_of fs ''properties'' of Some (JObj ps) \<Rightarrow> ps | _ \<Rightarrow> [])
      | _ \<Rightarrow> [])"

definition discriminant :: "string \<Rightarrow> json" where
  "discriminant eventType = JObj [(''const'', JStr eventType)]"

definition createEventSchema :: "string \<Rightarrow> json \<Rightarrow> object_schema" where
  "createEventSchema eventType eventSchema =
     \<lparr> type = ''object'',
       properties = obj_put (payload_properties eventSchema) ''type'' (discriminant eventType),
       additionalProperties = False,
       required = [''type''] \<rparr>"

definition createEventSchemas :: "obj \<Rightarrow> (string \<times> object_schema) list" where
  "createEventSchemas eventSchemaMap =
     map (\<lambda>(eventType, eventSchema). (eventType, createEventSchema eventType eventSchema))
       eventSchemaMap"

text \<open>
  The bundle \<^verbatim>\<open>createSchemas\<close> returns. Its field \<^verbatim>\<open>context\<close> is written
  \<open>context'\<close> here.
\<close>

record schemas =
  context' :: object_schema
  events :: "(string \<times> object_schema) list"
  types :: json

text \<open>
  The body of \<^verbatim>\<open>createSchemas\<close> is a single \<^verbatim>\<open>return\<close> of an object literal; it
  contains no \<^verbatim>\<open>throw\<close>. The result is a sum so that failing and returning can be
  told apart in statements about it; \<open>InvalidSchemaError\<close> is the failure the
  specification names for the builder.
\<close>

datatype schema_error = InvalidSchemaError

definition createSchemas :: "obj \<Rightarrow> obj \<Rightarrow> schema_error + schemas" where
  "createSchemas context_arg events_arg =
     Inr \<lparr> context' =
             \<lparr> type = ''object'',
               properties = context_arg,
               additionalProperties = False,
               required = Object_keys context_arg \<rparr>,
           events = createEventSchemas events_arg,
           types = JObj [] \<rparr>"

text \<open>
  The type annotations of \<^verbatim>\<open>createSchemas\<close> are erased at run time, so a caller can
  pass \<^verbatim>\<open>null\<close> or leave the context out. \<open>createSchemas_untyped\<close> is the same body
  for such a call: the context argument is \<open>None\<close> when it is \<^verbatim>\<open>null\<close> or
  \<^verbatim>\<open>undefined\<close>, and then \<^verbatim>\<open>Object.keys(context)\<close> (line 33) throws a
  \<^verbatim>\<open>TypeError\<close>; the object literal is evaluated in order, so this happens before
  \<^verbatim>\<open>createEventSchemas(events)\<close> (line 35) is called. Since
  \<^verbatim>\<open>createEventSchemas\<close> is not among the sources, it is a parameter here: any function
  that returns the event schemas or throws, and what it throws leaves \<^verbatim>\<open>createSchemas\<close>
  unchanged.
\<close>

datatype 'e thrown = TypeError | Raised 'e

definition createSchemas_untyped ::
  "(obj \<Rightarrow> 'e + (string \<times> object_schema) list) \<Rightarrow> obj option \<Rightarrow> obj
     \<Rightarrow> 'e thrown + schemas" where
  "createSchemas_untyped normalise context_arg events_arg =
     (case context_arg of
        None \<Rightarrow> Inl TypeError
      | Some c \<Rightarrow>
          (case normalise events_arg of
             Inl err \<Rightarrow> Inl (Raised err)
           | Inr es \<Rightarrow>
               Inr \<lparr> context' =
                       \<lparr> type = ''object'',
                         properties = c,
                         additionalProperties = False,
                         required = Object_keys c \<rparr>,
                     events = es,
                     types = JObj [] \<rparr>))"

text \<open>
  The call in \<^verbatim>\<open>examples/quiz.ts\<close> (lines 84 to 136): the context argument is itself
  written as an object schema, so its two keys are \<^verbatim>\<open>type\<close> and \<^verbatim>\<open>properties\<close>.
\<close>

definition quiz_context :: obj where
  "quiz_context =
     [(''type'', JStr ''object''),
      (''properties'', JObj
         [(''score'', JObj [(''type'', JStr ''number'')]),
          (''currentTopic'', JObj [(''type'', JStr ''string'')]),
          (''currentQuestion'', JObj [(''type'', JStr ''string'')]),
          (''currentAnswer'', JObj [(''type'', JStr ''string'')]),
          (''answerResponse'', JObj [(''type'', JStr ''string'')]),
          (''difficultyLevel'', JObj [(''type'', JStr ''number'')]),
          (''numberOfQuestions'', JObj [(''type'', JStr ''number'')]),
          (''questionNumber'', JObj [(''type'', JStr ''number'')])])]"

definition empty_event :: json where
  "empty_event = JObj [(''type'', JStr ''object''), (''properties'', JObj [])]"

definition quiz_events :: obj where
  "quiz_events =
     [(''next question'', empty_event),
      (''start'', empty_event),
      (''submit'', empty_event),
      (''retry'', empty_event),
      (''end game'', empty_event)]"


section \<open>The actor adapter\<close>

text \<open>
  Modelled from the spec: the sources hold the interface \<^verbatim>\<open>StatelyAgentAdapter\<close> only,
  that is the field \<^verbatim>\<open>model\<close>, the signatures of \<^verbatim>\<open>fromEventChoice\<close>,
  \<^verbatim>\<open>fromChat\<close>, \<^verbatim>\<open>fromChatStream\<close> and \<^verbatim>\<open>fromToolChoice\<close>, and the option
  \<^verbatim>\<open>execute\<close> with its default. The adapter that implements the interface, the
  completion transport and the dispatch to the parent are not among them. Everything in
  this section other than those names and the default follows sections 4.2, 5, 6 and 7
  of the specification.
\<close>

type_synonym cause = string

datatype adapter_error =
    CompletionRequestError cause
  | StreamError cause
  | EventMappingError
  | InvalidToolInputError
  | UnknownToolError

subsection \<open>Requests and completions\<close>

record function_descriptor =
  function_name :: string
  function_description :: string
  function_parameters :: json

record chat_request =
  request_model :: string
  messages :: "string list"
  function_list :: "function_descriptor list"

text \<open>The value of \<^verbatim>\<open>inputFn\<close>: a plain prompt string or a full structured request.\<close>

datatype prompt = Text string | Params chat_request

record tool_call =
  call_name :: string
  call_arguments :: json

record choice =
  message_content :: string
  tool_calls :: "tool_call list"

record chat_completion =
  choices :: "choice list"

datatype stream_signal = Chunk string | EndOfStream | TransportFailure cause

record completion_transport =
  request :: "chat_request \<Rightarrow> cause + chat_completion"
  stream :: "chat_request \<Rightarrow> stream_signal list"

record adapter =
  model :: string
  transport :: completion_transport

definition to_request :: "string \<Rightarrow> prompt \<Rightarrow> chat_request" where
  "to_request m p =
     (case p of
        Text s \<Rightarrow> \<lparr> request_model = m, messages = [s], function_list = [] \<rparr>
      | Params r \<Rightarrow> r)"

subsection \<open>What an invoked actor does\<close>

text \<open>
  One invocation of a promise-shaped actor is the list of what it does, in order: the
  request it issues through the transport, the events it hands to the parent execution
  context, and last the settling of its promise.
\<close>

datatype ('ev, 'out) action =
    Request chat_request
  | Dispatch 'ev
  | Resolve 'out
  | Reject adapter_error

fun requests :: "('ev, 'out) action list \<Rightarrow> chat_request list" where
  "requests [] = []"
| "requests (Request r # as) = r # requests as"
| "requests (_ # as) = requests as"

fun dispatches :: "('ev, 'out) action list \<Rightarrow> 'ev list" where
  "dispatches [] = []"
| "dispatches (Dispatch e # as) = e # dispatches as"
| "dispatches (_ # as) = dispatches as"

record options =
  execute :: "bool option"

definition should_execute :: "options option \<Rightarrow> bool" where
  "should_execute opts =
     (case opts of
        None \<Rightarrow> True
      | Some opt \<Rightarrow> (case execute opt of None \<Rightarrow> True | Some b \<Rightarrow> b))"

definition fromChat ::
  "adapter \<Rightarrow> ('i \<Rightarrow> prompt) \<Rightarrow> 'i \<Rightarrow> ('ev, chat_completion) action list" where
  "fromChat ad inputFn input =
     (let req = to_request (model ad) (inputFn input)
      in Request req #
         (case request (transport ad) req of
            Inl cause \<Rightarrow> [Reject (CompletionRequestError cause)]
          | Inr result \<Rightarrow> [Resolve result]))"

text \<open>
  The produced events are dispatched, when \<^verbatim>\<open>execute\<close> is on, one after the other
  before the promise resolves; the promise resolves with the event list, or with
  \<^verbatim>\<open>undefined\<close> (\<open>None\<close>) when the completion returned no choices.
\<close>

text \<open>
  How a choice of the completion becomes an event of the caller's event schema is left to
  the caller's schema: \<open>to_event\<close> is that mapping, and gives \<open>None\<close> for a choice
  that cannot be mapped to a well-formed event.
\<close>

definition settle_events ::
  "options option \<Rightarrow> bool \<Rightarrow> 'ev list \<Rightarrow> ('ev, 'ev list option) action list" where
  "settle_events opts no_choices evs =
     (if should_execute opts then map Dispatch evs else [])
       @ [Resolve (if no_choices then None else Some evs)]"

definition fromEventChoice ::
  "adapter \<Rightarrow> (choice \<Rightarrow> 'ev option) \<Rightarrow> ('i \<Rightarrow> prompt) \<Rightarrow> options option \<Rightarrow> 'i
     \<Rightarrow> ('ev, 'ev list option) action list" where
  "fromEventChoice ad to_event inputFn opts input =
     (let req = to_request (model ad) (inputFn input)
      in Request req #
         (case request (transport ad) req of
            Inl cause \<Rightarrow> [Reject (CompletionRequestError cause)]
          | Inr result \<Rightarrow>
              (case those (map to_event (choices result)) of
                 None \<Rightarrow> [Reject EventMappingError]
               | Some evs \<Rightarrow> settle_events opts (choices result = []) evs)))"

subsection \<open>Tool choice\<close>

datatype actor_logic = OneShot "json \<Rightarrow> json" | OtherLogic

record tool =
  description :: string
  src :: actor_logic
  inputSchema :: json

definition tool_descriptor :: "string \<times> tool \<Rightarrow> function_descriptor" where
  "tool_descriptor nt =
     \<lparr> function_name = fst nt,
       function_description = description (snd nt),
       function_parameters = inputSchema (snd nt) \<rparr>"

definition selected_calls :: "chat_completion \<Rightarrow> tool_call list" where
  "selected_calls result = concat (map tool_calls (choices result))"

definition unmatched :: "(string \<times> tool) list \<Rightarrow> tool_call \<Rightarrow> bool" where
  "unmatched tools c = (map_of tools (call_name c) = None)"

text \<open>
  The selected tool calls are matched against the registry by name. A matched tool whose
  nested logic is a one-shot unit is invoked with the call's arguments once they conform
  to the tool's input schema (\<open>conforms schema arguments\<close>), and its result goes into
  the produced event (\<open>to_event call result\<close>).
\<close>

definition run_tool ::
  "(json \<Rightarrow> json \<Rightarrow> bool) \<Rightarrow> (tool_call \<Rightarrow> json option \<Rightarrow> 'ev) \<Rightarrow> (string \<times> tool) list
     \<Rightarrow> tool_call \<Rightarrow> adapter_error + 'ev" where
  "run_tool conforms to_event tools c =
     (case map_of tools (call_name c) of
        None \<Rightarrow> Inl UnknownToolError
      | Some t \<Rightarrow>
          (case src t of
             OneShot run \<Rightarrow>
               if conforms (inputSchema t) (call_arguments c)
               then Inr (to_event c (Some (run (call_arguments c))))
               else Inl InvalidToolInputError
           | OtherLogic \<Rightarrow> Inr (to_event c None)))"

fun run_tools ::
  "(json \<Rightarrow> json \<Rightarrow> bool) \<Rightarrow> (tool_call \<Rightarrow> json option \<Rightarrow> 'ev) \<Rightarrow> (string \<times> tool) list
     \<Rightarrow> tool_call list \<Rightarrow> adapter_error + 'ev list" where
  "run_tools conforms to_event tools [] = Inr []"
| "run_tools conforms to_event tools (c # cs) =
     (case run_tool conforms to_event tools c of
        Inl e \<Rightarrow> Inl e
      | Inr ev \<Rightarrow>
          (case run_tools conforms to_event tools cs of
             Inl e \<Rightarrow> Inl e
           | Inr evs \<Rightarrow> Inr (ev # evs)))"

definition fromToolChoice ::
  "adapter \<Rightarrow> (json \<Rightarrow> json \<Rightarrow> bool) \<Rightarrow> (tool_call \<Rightarrow> json option \<Rightarrow> 'ev) \<Rightarrow> ('i \<Rightarrow> prompt)
     \<Rightarrow> (string \<times> tool) list \<Rightarrow> options option \<Rightarrow> 'i \<Rightarrow> ('ev, 'ev list option) action list" where
  "fromToolChoice ad conforms to_event inputFn tools opts input =
     (let req = (to_request (model ad) (inputFn input))\<lparr>function_list := map tool_descriptor tools\<rparr>
      in Request req #
         (case request (transport ad) req of
            Inl cause \<Rightarrow> [Reject (CompletionRequestError cause)]
          | Inr result \<Rightarrow>
              if list_ex (unmatched tools) (selected_calls result) then [Reject UnknownToolError]
              else
                (case run_tools conforms to_event tools (selected_calls result) of
                   Inl e \<Rightarrow> [Reject e]
                 | Inr evs \<Rightarrow> settle_events opts (choices result = []) evs)))"

subsection \<open>Streaming\<close>

text \<open>
  What a stream-shaped actor hands to its observer: chunks, then at most one end, which
  is either completion or an error.
\<close>

datatype emission = Next string | Complete | Error adapter_error

fun relay :: "stream_signal list \<Rightarrow> emission list" where
  "relay [] = []"
| "relay (Chunk c # rest) = Next c # relay rest"
| "relay (EndOfStream # rest) = [Complete]"
| "relay (TransportFailure cause # rest) = [Error (StreamError cause)]"

definition fromChatStream :: "adapter \<Rightarrow> ('i \<Rightarrow> prompt) \<Rightarrow> 'i \<Rightarrow> emission list" where
  "fromChatStream ad inputFn input =
     relay (stream (transport ad) (to_request (model ad) (inputFn input)))"

subsection \<open>Stub transports\<close>

text \<open>
  The stubs of the specification's testable properties: a transport that gives one fixed
  answer to every request and one fixed sequence of signals to every stream request, and
  an adapter over it with the model identifier of \<^verbatim>\<open>examples/quiz.ts\<close>.
\<close>

definition stub_transport ::
  "(cause + chat_completion) \<Rightarrow> stream_signal list \<Rightarrow> completion_transport" where
  "stub_transport answer signals = \<lparr> request = (\<lambda>r. answer), stream = (\<lambda>r. signals) \<rparr>"

definition stub_adapter :: "(cause + chat_completion) \<Rightarrow> stream_signal list \<Rightarrow> adapter" where
  "stub_adapter answer signals =
     \<lparr> model = ''gpt-3.5-turbo-1106'', transport = stub_transport answer signals \<rparr>"

definition paris :: chat_completion where
  "paris = \<lparr> choices = [\<lparr> message_content = ''Paris'', tool_calls = [] \<rparr>] \<rparr>"

definition abc :: chat_completion where
  "abc = \<lparr> choices = [\<lparr> message_content = ''a'', tool_calls = [] \<rparr>,
                      \<lparr> message_content = ''b'', tool_calls = [] \<rparr>,
                      \<lparr> message_content = ''c'', tool_calls = [] \<rparr>] \<rparr>"

definition lookup_call :: chat_completion where
  "lookup_call =
     \<lparr> choices = [\<lparr> message_content = [],
                     tool_calls = [\<lparr> call_name = ''lookup'', call_arguments = JObj [] \<rparr>] \<rparr>] \<rparr>"

definition search_only :: "(string \<times> tool) list" where
  "search_only =
     [(''search'', \<lparr> description = ''Search the web'', src = OtherLogic, inputSchema = JObj [] \<rparr>)]"

section \<open>Properties of the schema builder\<close>

subsection \<open>Property enumeration\<close>

lemma Object_keys_set: "set (Object_keys C) = fst ` set C"
  by (auto simp: Object_keys_def index_keys_def name_keys_def)

lemma Object_keys_distinct: "distinct (map fst C) \<Longrightarrow> distinct (Object_keys C)"
  by (auto simp: Object_keys_def index_keys_def name_keys_def distinct_map_filter)

lemma Object_keys_names_only:
  "\<forall>k \<in> fst ` set C. \<not> is_array_index k \<Longrightarrow> Object_keys C = map fst C"
  by (simp add: Object_keys_def index_keys_def name_keys_def filter_empty_conv filter_id_conv)

lemma index_keys_sorted: "sorted (map numeral_value (index_keys ks))"
  by (simp add: index_keys_def)

lemma index_keys_all: "list_all is_array_index (index_keys ks)"
  by (simp add: index_keys_def list_all_iff)

lemma Object_keys_map_values: "Object_keys (map (apsnd f) C) = Object_keys C"
proof -
  have "map fst (map (apsnd f) C) = map fst C"
    by (induction C) auto
  then show ?thesis
    unfolding Object_keys_def by (simp only:)
qed


subsection \<open>The context schema\<close>

text \<open>
  C1, as the code has it. The context schema of the returned bundle is the object schema
  with \<^verbatim>\<open>type: "object"\<close>, the context mapping itself as \<^verbatim>\<open>properties\<close>,
  \<^verbatim>\<open>additionalProperties: false\<close>, and as \<^verbatim>\<open>required\<close> the list \<open>R\<close> of the
  mapping's keys with no omission, no addition and no duplicate. The order of \<open>R\<close> is
  that of \<^verbatim>\<open>Object.keys\<close>: the keys that are array indices come first, in ascending
  numeric order, and the other keys follow in declaration order; so \<open>R\<close> is the
  declaration order whenever no key is an array index.
\<close>

theorem createSchemas_context_schema:
  assumes "distinct (map fst C)"
  shows "\<exists>R. createSchemas C E =
            Inr \<lparr> context' = \<lparr> type = ''object'', properties = C,
                                additionalProperties = False, required = R \<rparr>,
                  events = createEventSchemas E, types = JObj [] \<rparr>
          \<and> set R = fst ` set C \<and> distinct R
          \<and> R = index_keys (map fst C) @ name_keys (map fst C)
          \<and> list_all is_array_index (index_keys (map fst C))
          \<and> sorted (map numeral_value (index_keys (map fst C)))
          \<and> name_keys (map fst C) = filter (\<lambda>k. \<not> is_array_index k) (map fst C)
          \<and> ((\<forall>k \<in> fst ` set C. \<not> is_array_index k) \<longrightarrow> R = map fst C)"
  using assms Object_keys_set [of C] Object_keys_distinct [of C] Object_keys_names_only [of C]
    index_keys_sorted [of "map fst C"] index_keys_all [of "map fst C"]
  by (simp add: createSchemas_def Object_keys_def name_keys_def)

text \<open>
  The scenario of the specification: the context \<^verbatim>\<open>{ score: { type: "number" } }\<close>
  has distinct keys, none of them an array index, and \<^verbatim>\<open>required\<close> is
  \<^verbatim>\<open>["score"]\<close>.
\<close>

theorem createSchemas_context_schema_witness:
  "distinct (map fst [(''score'', JObj [(''type'', JStr ''number'')])])
   \<and> \<not> is_array_index ''score''
   \<and> createSchemas [(''score'', JObj [(''type'', JStr ''number'')])] [] =
       Inr \<lparr> context' = \<lparr> type = ''object'',
                           properties = [(''score'', JObj [(''type'', JStr ''number'')])],
                           additionalProperties = False, required = [''score''] \<rparr>,
             events = createEventSchemas [], types = JObj [] \<rparr>"
proof -
  let ?C = "[(''score'', JObj [(''type'', JStr ''number'')])]"
  have d: "distinct (map fst ?C)" by simp
  have n: "\<forall>k \<in> fst ` set ?C. \<not> is_array_index k"
    by (simp add: is_array_index_def is_digit_def)
  from createSchemas_context_schema [OF d, of "[]"] n
  have "createSchemas ?C [] =
       Inr \<lparr> context' = \<lparr> type = ''object'', properties = ?C,
                           additionalProperties = False, required = map fst ?C \<rparr>,
             events = createEventSchemas [], types = JObj [] \<rparr>"
    by metis
  moreover have "\<not> is_array_index ''score''"
    by (simp add: is_array_index_def is_digit_def)
  ultimately show ?thesis using d by simp
qed

text \<open>
  Declared as \<^verbatim>\<open>{ b: ..., 1: ... }\<close>, the context has \<^verbatim>\<open>required\<close> equal to
  \<^verbatim>\<open>["1", "b"]\<close>, which is not the declaration order.
\<close>

theorem createSchemas_declaration_order_counterexample:
  "createSchemas [(''b'', JObj [(''type'', JStr ''string'')]),
                  (''1'', JObj [(''type'', JStr ''number'')])] [] =
     Inr \<lparr> context' = \<lparr> type = ''object'',
              properties = [(''b'', JObj [(''type'', JStr ''string'')]),
                            (''1'', JObj [(''type'', JStr ''number'')])],
              additionalProperties = False,
              required = [''1'', ''b''] \<rparr>,
           events = [], types = JObj [] \<rparr>
   \<and> [''1'', ''b''] \<noteq> map fst [(''b'', JObj [(''type'', JStr ''string'')]),
                                 (''1'', JObj [(''type'', JStr ''number'')])]"
  by (simp add: createSchemas_def createEventSchemas_def Object_keys_def index_keys_def
      name_keys_def is_array_index_def is_digit_def numeral_value_def digit_value_def)

subsection \<open>The event schemas\<close>








subsection \<open>No validation, no failure\<close>




lemma createSchemas_untyped_agrees:
  "createSchemas_untyped (\<lambda>E. Inr (createEventSchemas E)) (Some C) E = Inr b
     \<longleftrightarrow> createSchemas C E = Inr b"
  by (simp add: createSchemas_untyped_def createSchemas_def)

text \<open>
  C4, as the code has it. Called with a \<^verbatim>\<open>null\<close> or missing context, the builder
  throws a \<^verbatim>\<open>TypeError\<close>. Called with a context mapping \<open>C\<close>, whatever its
  descriptors are, it throws nothing of its own: when \<^verbatim>\<open>createEventSchemas\<close> returns
  the event schemas \<open>es\<close> the builder returns a bundle, with \<open>C\<close> as the properties of
  its context schema and \<open>es\<close> as its events, and when \<^verbatim>\<open>createEventSchemas\<close>
  throws, that is what the call throws. It does not look inside the context's field
  descriptors: replacing every descriptor \<open>d\<close> by \<open>f d\<close>, for any \<open>f\<close>, changes the
  returned bundle in its \<^verbatim>\<open>properties\<close> only, which are the replaced mapping.
\<close>

theorem createSchemas_untyped_outcomes:
  "createSchemas_untyped normalise None E = Inl TypeError
   \<and> (normalise E = Inr es \<longrightarrow>
        (\<exists>b. createSchemas_untyped normalise (Some C) E = Inr b
             \<and> properties (context' b) = C
             \<and> events b = es
             \<and> createSchemas_untyped normalise (Some (map (apsnd f) C)) E =
                 Inr (b\<lparr>context' := (context' b)\<lparr>properties := map (apsnd f) C\<rparr>\<rparr>)))
   \<and> (normalise E = Inl err \<longrightarrow>
        createSchemas_untyped normalise (Some C) E = Inl (Raised err))
   \<and> createSchemas_untyped normalise (Some C) E \<noteq> Inl TypeError"
proof -
  have absent: "createSchemas_untyped normalise None E = Inl TypeError"
    by (simp add: createSchemas_untyped_def)
  have returns: "\<exists>b. createSchemas_untyped normalise (Some C) E = Inr b
             \<and> properties (context' b) = C
             \<and> events b = es
             \<and> createSchemas_untyped normalise (Some (map (apsnd f) C)) E =
                 Inr (b\<lparr>context' := (context' b)\<lparr>properties := map (apsnd f) C\<rparr>\<rparr>)"
    if "normalise E = Inr es"
    using that by (simp add: createSchemas_untyped_def Object_keys_map_values)
  have raises: "createSchemas_untyped normalise (Some C) E = Inl (Raised err)"
    if "normalise E = Inl err"
    using that by (simp add: createSchemas_untyped_def)
  have own: "createSchemas_untyped normalise (Some C) E \<noteq> Inl TypeError"
    by (simp add: createSchemas_untyped_def split: sum.splits)
  from absent returns raises own show ?thesis by blast
qed

text \<open>
  With a normalizer that returns, the mapping \<^verbatim>\<open>{ score: 42 }\<close> gives a bundle; with
  one that throws, the call throws the same.
\<close>

theorem createSchemas_untyped_outcomes_witness:
  "(\<exists>b. createSchemas_untyped (\<lambda>E. Inr (createEventSchemas E) :: schema_error + _)
          (Some [(''score'', JNum 42)]) [] = Inr b
        \<and> properties (context' b) = [(''score'', JNum 42)]
        \<and> events b = [])
   \<and> createSchemas_untyped (\<lambda>E. Inl InvalidSchemaError) (Some [(''score'', JNum 42)]) []
       = Inl (Raised InvalidSchemaError)"
proof -
  let ?ok = "\<lambda>E. Inr (createEventSchemas E) :: schema_error + (string \<times> object_schema) list"
  let ?ko = "\<lambda>E :: obj. Inl InvalidSchemaError :: schema_error + (string \<times> object_schema) list"
  have a: "?ok [] = Inr []" by (simp add: createEventSchemas_def)
  have b: "?ko [] = Inl InvalidSchemaError" by simp
  from a createSchemas_untyped_outcomes
         [where normalise = ?ok and E = "[]" and es = "[]" and C = "[(''score'', JNum 42)]"]
  have 1: "\<exists>b. createSchemas_untyped ?ok (Some [(''score'', JNum 42)]) [] = Inr b
        \<and> properties (context' b) = [(''score'', JNum 42)] \<and> events b = []"
    by blast
  from b createSchemas_untyped_outcomes
         [where normalise = ?ko and E = "[]" and err = InvalidSchemaError
            and C = "[(''score'', JNum 42)]"]
  have 2: "createSchemas_untyped ?ko (Some [(''score'', JNum 42)]) []
             = Inl (Raised InvalidSchemaError)"
    by blast
  from 1 2 show ?thesis by blast
qed

text \<open>
  The call \<^verbatim>\<open>createSchemas({ context: null, events: {} })\<close> throws a
  \<^verbatim>\<open>TypeError\<close>.
\<close>

theorem createSchemas_null_context_counterexample:
  "createSchemas_untyped (\<lambda>E. Inr (createEventSchemas E) :: schema_error + _) None []
     = Inl TypeError"
  by (simp add: createSchemas_untyped_def)

text \<open>
  C5. The \<^verbatim>\<open>types\<close> part of the returned bundle is the empty object, whatever the
  context and event mappings are.
\<close>

theorem createSchemas_types_placeholder:
  "map_sum id types (createSchemas C E) = Inr (JObj [])"
  by (simp add: createSchemas_def)

text \<open>
  C6. Two calls of the builder with the same context mapping and the same event mapping
  both return, and they return equal bundles.
\<close>

theorem createSchemas_deterministic:
  assumes "C' = C" and "E' = E"
  shows "\<exists>b. createSchemas C E = Inr b \<and> createSchemas C' E' = Inr b"
  using assms by (simp add: createSchemas_def)

theorem createSchemas_deterministic_witness:
  "quiz_context = quiz_context \<and> quiz_events = quiz_events
   \<and> (\<exists>b. createSchemas quiz_context quiz_events = Inr b
           \<and> createSchemas quiz_context quiz_events = Inr b)"
  using createSchemas_deterministic [of quiz_context quiz_context quiz_events quiz_events]
  by simp

section \<open>Properties of the actor adapter\<close>

lemma those_map_Some: "those (map Some xs) = Some xs"
  by (induction xs) auto

lemma dispatches_map_Dispatch: "dispatches (map Dispatch evs @ as) = evs @ dispatches as"
  by (induction evs) auto

lemma relay_chunks: "relay (map Chunk cs @ rest) = map Next cs @ relay rest"
  by (induction cs) auto

lemma list_ex_unmatched:
  "c \<in> set cs \<Longrightarrow> map_of tools (call_name c) = None \<Longrightarrow> list_ex (unmatched tools) cs"
  by (auto simp: list_ex_iff unmatched_def)

lemma stub_request: "request (transport (stub_adapter answer signals)) r = answer"
  by (simp add: stub_adapter_def stub_transport_def)

lemma stub_stream: "stream (transport (stub_adapter answer signals)) r = signals"
  by (simp add: stub_adapter_def stub_transport_def)

lemma stub_text_request:
  "to_request (model (stub_adapter answer signals)) (Text s) =
     \<lparr> request_model = ''gpt-3.5-turbo-1106'', messages = [s], function_list = [] \<rparr>"
  by (simp add: to_request_def stub_adapter_def)

subsection \<open>One-shot completion\<close>

text \<open>
  C7. An actor built by \<^verbatim>\<open>fromChat\<close> issues exactly one request through the
  transport; when \<^verbatim>\<open>inputFn\<close> gives a string, that request is the single-message
  request with the adapter's model; when the transport answers with a result \<open>R\<close> the
  actor resolves with \<open>R\<close>, and when the transport fails with a cause \<open>c\<close> the actor
  rejects with \<open>CompletionRequestError c\<close>.
\<close>

theorem fromChat_round_trip:
  "(inputFn input = Text s \<longrightarrow>
      requests (fromChat ad inputFn input :: ('ev, chat_completion) action list) =
        [\<lparr> request_model = model ad, messages = [s], function_list = [] \<rparr>])
   \<and> length (requests (fromChat ad inputFn input :: ('ev, chat_completion) action list)) = 1
   \<and> (request (transport ad) (to_request (model ad) (inputFn input)) = Inr R \<longrightarrow>
        (fromChat ad inputFn input :: ('ev, chat_completion) action list) =
          [Request (to_request (model ad) (inputFn input)), Resolve R])
   \<and> (request (transport ad) (to_request (model ad) (inputFn input)) = Inl c \<longrightarrow>
        (fromChat ad inputFn input :: ('ev, chat_completion) action list) =
          [Request (to_request (model ad) (inputFn input)), Reject (CompletionRequestError c)])"
  by (auto simp: fromChat_def Let_def to_request_def split: sum.splits)

theorem fromChat_round_trip_witness:
  "(fromChat (stub_adapter (Inr paris) []) Text ''capital of France?''
      :: (unit, chat_completion) action list) =
     [Request \<lparr> request_model = ''gpt-3.5-turbo-1106'', messages = [''capital of France?''],
                 function_list = [] \<rparr>,
      Resolve paris]
   \<and> (fromChat (stub_adapter (Inl ''timeout'') []) Text ''capital of France?''
          :: (unit, chat_completion) action list) =
       [Request \<lparr> request_model = ''gpt-3.5-turbo-1106'', messages = [''capital of France?''],
                   function_list = [] \<rparr>,
        Reject (CompletionRequestError ''timeout'')]"
proof -
  let ?q = "''capital of France?''"
  let ?ok = "stub_adapter (Inr paris) []"
  let ?ko = "stub_adapter (Inl ''timeout'') []"
  have ok: "request (transport ?ok) (to_request (model ?ok) (Text ?q)) = Inr paris"
    by (rule stub_request)
  have ko: "request (transport ?ko) (to_request (model ?ko) (Text ?q)) = Inl ''timeout''"
    by (rule stub_request)
  from ok fromChat_round_trip [of Text ?q ?q ?ok paris "''timeout''"]
  have 1: "(fromChat ?ok Text ?q :: (unit, chat_completion) action list) =
             [Request (to_request (model ?ok) (Text ?q)), Resolve paris]"
    by blast
  from ko fromChat_round_trip [of Text ?q ?q ?ko paris "''timeout''"]
  have 2: "(fromChat ?ko Text ?q :: (unit, chat_completion) action list) =
             [Request (to_request (model ?ko) (Text ?q)),
              Reject (CompletionRequestError ''timeout'')]"
    by blast
  from 1 2 show ?thesis by (simp add: stub_text_request)
qed

subsection \<open>Event choice\<close>

text \<open>
  C8. When the transport answers with a completion whose choices map, one to one, to the
  events \<open>evs\<close>: with \<^verbatim>\<open>execute\<close> on (its default, when the options or the option are
  absent) the actor issues its request, dispatches the events of \<open>evs\<close> to the parent in
  that order, and resolves last; with \<^verbatim>\<open>execute\<close> false it dispatches nothing. In both
  cases it resolves with the event list, or with \<^verbatim>\<open>undefined\<close> when there was no
  choice.
\<close>

theorem fromEventChoice_dispatch_order:
  assumes "request (transport ad) (to_request (model ad) (inputFn input)) = Inr result"
    and "map to_event (choices result) = map Some evs"
  shows "(should_execute opts \<longrightarrow>
           fromEventChoice ad to_event inputFn opts input =
             Request (to_request (model ad) (inputFn input)) # map Dispatch evs
               @ [Resolve (if evs = [] then None else Some evs)])
       \<and> (\<not> should_execute opts \<longrightarrow>
           fromEventChoice ad to_event inputFn opts input =
             [Request (to_request (model ad) (inputFn input)),
              Resolve (if evs = [] then None else Some evs)])
       \<and> dispatches (fromEventChoice ad to_event inputFn opts input) =
           (if should_execute opts then evs else [])
       \<and> should_execute None
       \<and> should_execute (Some \<lparr> execute = None \<rparr>)
       \<and> should_execute (Some \<lparr> execute = Some True \<rparr>)
       \<and> \<not> should_execute (Some \<lparr> execute = Some False \<rparr>)"
proof -
  from assms(2) have e: "(choices result = []) = (evs = [])"
    by (metis map_is_Nil_conv)
  show ?thesis
    using assms e
    by (simp add: fromEventChoice_def Let_def those_map_Some settle_events_def
        dispatches_map_Dispatch should_execute_def)
qed

theorem fromEventChoice_dispatch_order_witness:
  "fromEventChoice (stub_adapter (Inr abc) []) (\<lambda>c. Some (message_content c)) Text None ''next'' =
     [Request \<lparr> request_model = ''gpt-3.5-turbo-1106'', messages = [''next''],
                 function_list = [] \<rparr>,
      Dispatch ''a'', Dispatch ''b'', Dispatch ''c'',
      Resolve (Some [''a'', ''b'', ''c''])]
   \<and> fromEventChoice (stub_adapter (Inr abc) []) (\<lambda>c. Some (message_content c)) Text
        (Some \<lparr> execute = Some False \<rparr>) ''next'' =
     [Request \<lparr> request_model = ''gpt-3.5-turbo-1106'', messages = [''next''],
                 function_list = [] \<rparr>,
      Resolve (Some [''a'', ''b'', ''c''])]"
proof -
  let ?ad = "stub_adapter (Inr abc) []"
  let ?to_event = "\<lambda>c. Some (message_content c)"
  have r: "request (transport ?ad) (to_request (model ?ad) (Text ''next'')) = Inr abc"
    by (rule stub_request)
  have m: "map ?to_event (choices abc) = map Some [''a'', ''b'', ''c'']"
    by (simp add: abc_def)
  note on = fromEventChoice_dispatch_order
    [where ad = ?ad and inputFn = Text and input = "''next''" and to_event = ?to_event
       and opts = None, OF r m]
  note off = fromEventChoice_dispatch_order
    [where ad = ?ad and inputFn = Text and input = "''next''" and to_event = ?to_event
       and opts = "Some \<lparr> execute = Some False \<rparr>", OF r m]
  from on have 1: "fromEventChoice ?ad ?to_event Text None ''next'' =
      Request (to_request (model ?ad) (Text ''next'')) # map Dispatch [''a'', ''b'', ''c'']
        @ [Resolve (if [''a'', ''b'', ''c''] = [] then None else Some [''a'', ''b'', ''c''])]"
    by blast
  from off have 2: "fromEventChoice ?ad ?to_event Text (Some \<lparr> execute = Some False \<rparr>) ''next'' =
      [Request (to_request (model ?ad) (Text ''next'')),
       Resolve (if [''a'', ''b'', ''c''] = [] then None else Some [''a'', ''b'', ''c''])]"
    by blast
  from 1 2 show ?thesis by (simp add: stub_text_request)
qed

subsection \<open>Tool choice\<close>

text \<open>
  C9. When the transport answers with a completion that selects a tool call whose name
  is not in the tools registry, the actor rejects with \<open>UnknownToolError\<close> right after
  its request, and it dispatches no event to the parent.
\<close>

theorem fromToolChoice_unknown_tool:
  assumes "request (transport ad)
             ((to_request (model ad) (inputFn input))\<lparr>function_list := map tool_descriptor tools\<rparr>)
           = Inr result"
    and "c \<in> set (selected_calls result)"
    and "map_of tools (call_name c) = None"
  shows "fromToolChoice ad conforms to_event inputFn tools opts input =
           [Request ((to_request (model ad) (inputFn input))
                       \<lparr>function_list := map tool_descriptor tools\<rparr>),
            Reject UnknownToolError]
       \<and> dispatches (fromToolChoice ad conforms to_event inputFn tools opts input) = []"
  using assms list_ex_unmatched [OF assms(2,3)]
  by (simp add: fromToolChoice_def Let_def)

theorem fromToolChoice_unknown_tool_witness:
  "fromToolChoice (stub_adapter (Inr lookup_call) []) (\<lambda>schema args. True)
       (\<lambda>c out. call_name c) Text search_only None ''find it'' =
     [Request \<lparr> request_model = ''gpt-3.5-turbo-1106'', messages = [''find it''],
                 function_list = [\<lparr> function_name = ''search'',
                                     function_description = ''Search the web'',
                                     function_parameters = JObj [] \<rparr>] \<rparr>,
      Reject UnknownToolError]
   \<and> dispatches (fromToolChoice (stub_adapter (Inr lookup_call) []) (\<lambda>schema args. True)
       (\<lambda>c out. call_name c) Text search_only None ''find it'') = []"
proof -
  let ?ad = "stub_adapter (Inr lookup_call) []"
  let ?c = "\<lparr> call_name = ''lookup'', call_arguments = JObj [] \<rparr>"
  have r: "request (transport ?ad)
             ((to_request (model ?ad) (Text ''find it''))
                \<lparr>function_list := map tool_descriptor search_only\<rparr>) = Inr lookup_call"
    by (rule stub_request)
  have s: "?c \<in> set (selected_calls lookup_call)"
    by (simp add: selected_calls_def lookup_call_def)
  have u: "map_of search_only (call_name ?c) = None"
    by (simp add: search_only_def)
  have q: "(to_request (model ?ad) (Text ''find it''))
             \<lparr>function_list := map tool_descriptor search_only\<rparr> =
           \<lparr> request_model = ''gpt-3.5-turbo-1106'', messages = [''find it''],
             function_list = [\<lparr> function_name = ''search'',
                                 function_description = ''Search the web'',
                                 function_parameters = JObj [] \<rparr>] \<rparr>"
    by (simp add: stub_text_request search_only_def tool_descriptor_def)
  note t = fromToolChoice_unknown_tool
    [where ad = ?ad and inputFn = Text and input = "''find it''" and tools = search_only
       and conforms = "\<lambda>schema args. True" and to_event = "\<lambda>c out. call_name c"
       and opts = None, OF r s u]
  from t show ?thesis unfolding q .
qed

subsection \<open>Streaming completion\<close>

text \<open>
  C10. An actor built by \<^verbatim>\<open>fromChatStream\<close> emits the chunks in the order in which
  the transport's stream delivers them. When the stream signals its end after the chunks
  \<open>cs\<close>, the actor emits \<open>cs\<close> and completes. When the stream fails with a cause after
  the chunks \<open>cs\<close>, the actor emits \<open>cs\<close> and ends with \<open>StreamError\<close>; whatever the
  stream holds after the failure is not emitted. While the stream has delivered chunks
  only, the actor has emitted exactly those.
\<close>

theorem fromChatStream_order_and_end:
  "(stream (transport ad) (to_request (model ad) (inputFn input))
        = map Chunk cs @ EndOfStream # rest
      \<longrightarrow> fromChatStream ad inputFn input = map Next cs @ [Complete])
   \<and> (stream (transport ad) (to_request (model ad) (inputFn input))
        = map Chunk cs @ TransportFailure cause # rest
      \<longrightarrow> fromChatStream ad inputFn input = map Next cs @ [Error (StreamError cause)])
   \<and> (stream (transport ad) (to_request (model ad) (inputFn input)) = map Chunk cs
      \<longrightarrow> fromChatStream ad inputFn input = map Next cs)"
  using relay_chunks [of cs "[]"]
  by (simp add: fromChatStream_def relay_chunks)

theorem fromChatStream_order_and_end_witness:
  "fromChatStream (stub_adapter (Inl ''unused'') [Chunk ''Hel'', Chunk ''lo'', EndOfStream])
       Text ''greet'' = [Next ''Hel'', Next ''lo'', Complete]
   \<and> fromChatStream
       (stub_adapter (Inl ''unused'') [Chunk ''Hel'', TransportFailure ''reset'', Chunk ''lo''])
       Text ''greet'' = [Next ''Hel'', Error (StreamError ''reset'')]
   \<and> fromChatStream (stub_adapter (Inl ''unused'') [Chunk ''Hel'', Chunk ''lo''])
       Text ''greet'' = [Next ''Hel'', Next ''lo'']"
proof -
  let ?ended = "stub_adapter (Inl ''unused'') [Chunk ''Hel'', Chunk ''lo'', EndOfStream]"
  let ?failed =
    "stub_adapter (Inl ''unused'') [Chunk ''Hel'', TransportFailure ''reset'', Chunk ''lo'']"
  let ?open = "stub_adapter (Inl ''unused'') [Chunk ''Hel'', Chunk ''lo'']"
  have e: "stream (transport ?ended) (to_request (model ?ended) (Text ''greet''))
             = map Chunk [''Hel'', ''lo''] @ EndOfStream # []"
    by (simp add: stub_stream)
  have f: "stream (transport ?failed) (to_request (model ?failed) (Text ''greet''))
             = map Chunk [''Hel''] @ TransportFailure ''reset'' # [Chunk ''lo'']"
    by (simp add: stub_stream)
  have p: "stream (transport ?open) (to_request (model ?open) (Text ''greet''))
             = map Chunk [''Hel'', ''lo'']"
    by (simp add: stub_stream)
  from e fromChatStream_order_and_end
           [where ad = ?ended and inputFn = Text and input = "''greet''"
              and cs = "[''Hel'', ''lo'']" and rest = "[]"]
  have 1: "fromChatStream ?ended Text ''greet'' = map Next [''Hel'', ''lo''] @ [Complete]"
    by blast
  from f fromChatStream_order_and_end
           [where ad = ?failed and inputFn = Text and input = "''greet''"
              and cs = "[''Hel'']" and cause = "''reset''" and rest = "[Chunk ''lo'']"]
  have 2: "fromChatStream ?failed Text ''greet''
             = map Next [''Hel''] @ [Error (StreamError ''reset'')]"
    by blast
  from p fromChatStream_order_and_end
           [where ad = ?open and inputFn = Text and input = "''greet''"
              and cs = "[''Hel'', ''lo'']"]
  have 3: "fromChatStream ?open Text ''greet'' = map Next [''Hel'', ''lo'']"
    by blast
  from 1 2 3 show ?thesis by simp
qed

end
